theory Spec2Isabelle
  imports Complex_Main
begin

section \<open>JavaScript values\<close>

text \<open>
  A JavaScript \<^verbatim>\<open>number\<close> is modelled by a real: finite and exact. \<^verbatim>\<open>NaN\<close>, the
  infinities, the negative zero and the rounding of doubles are outside the model, except
  for the one division of the layout provider, whose result is a \<open>jsnumber\<close> (below).
  A value of type \<^verbatim>\<open>number | undefined\<close> is a \<open>real option\<close>, \<open>None\<close> being
  \<^verbatim>\<open>undefined\<close>; a value of type \<^verbatim>\<open>boolean | undefined | null\<close> is a \<open>bool option\<close>.
\<close>

text \<open>Truthiness of a \<^verbatim>\<open>number | undefined\<close>: defined and not zero.\<close>

definition truthy_num :: "real option \<Rightarrow> bool" where
  "truthy_num v = (case v of None \<Rightarrow> False | Some n \<Rightarrow> n \<noteq> 0)"

text \<open>Truthiness of a \<^verbatim>\<open>boolean | undefined | null\<close>, also \<^verbatim>\<open>Boolean(v)\<close>.\<close>

definition truthy_flag :: "bool option \<Rightarrow> bool" where
  "truthy_flag v = (v = Some True)"

text \<open>\<^verbatim>\<open>a || b\<close> on two optional numbers, and \<^verbatim>\<open>a || d\<close> with a number on the right.\<close>

definition js_or :: "real option \<Rightarrow> real option \<Rightarrow> real option" where
  "js_or a b = (if truthy_num a then a else b)"

definition js_or_num :: "real option \<Rightarrow> real \<Rightarrow> real" where
  "js_or_num a d = (case a of None \<Rightarrow> d | Some n \<Rightarrow> if n \<noteq> 0 then n else d)"

text \<open>\<^verbatim>\<open>a ?? d\<close> with a number on the right.\<close>

definition nullish_num :: "real option \<Rightarrow> real \<Rightarrow> real" where
  "nullish_num a d = (case a of None \<Rightarrow> d | Some n \<Rightarrow> n)"

text \<open>\<^verbatim>\<open>Number(v)\<close> applied to a number returns it.\<close>

definition Number :: "real \<Rightarrow> real" where
  "Number n = n"


section \<open>Content container styles (utils/ContentContainerUtils.ts)\<close>

text \<open>
  \<^verbatim>\<open>ContentStyle\<close> is declared in FlashListProps, which is not among the sources:
  it is the style object with the eight keys that \<^verbatim>\<open>updateContentStyle\<close> destructures.
  Paddings are optional numbers, the colour an optional string; \<open>otherKeys\<close> holds the
  names of all further keys of the object (the \<^verbatim>\<open>...rest\<close> of
  \<^verbatim>\<open>hasUnsupportedKeysInContentContainerStyle\<close>).
\<close>

record ContentStyle =
  paddingTop :: "real option"
  paddingRight :: "real option"
  paddingBottom :: "real option"
  paddingLeft :: "real option"
  padding :: "real option"
  paddingVertical :: "real option"
  paddingHorizontal :: "real option"
  backgroundColor :: "string option"
  otherKeys :: "string list"

text \<open>The object literal \<^verbatim>\<open>{}\<close>.\<close>

definition emptyStyle :: ContentStyle where
  "emptyStyle = \<lparr> ContentStyle.paddingTop = None, paddingRight = None,
     paddingBottom = None, paddingLeft = None, padding = None, paddingVertical = None,
     paddingHorizontal = None, backgroundColor = None, otherKeys = [] \<rparr>"

record ContentStyleExplicit =
  paddingTop :: real
  paddingBottom :: real
  paddingLeft :: real
  paddingRight :: real
  backgroundColor :: "string option"

text \<open>
  \<^verbatim>\<open>updateContentStyle(contentStyle, contentContainerStyleSource)\<close> assigns the four paddings
  and the colour of its first argument and returns that object, typed as
  \<^verbatim>\<open>ContentStyleExplicit\<close>. Every field of that type is assigned, so the returned view is
  determined by the source alone; \<^verbatim>\<open>contentContainerStyleSource ?? {}\<close> is the \<open>case\<close>.
\<close>

definition updateContentStyle ::
  "ContentStyle \<Rightarrow> ContentStyle option \<Rightarrow> ContentStyleExplicit" where
  "updateContentStyle contentStyle contentContainerStyleSource =
    (let src = (case contentContainerStyleSource of None \<Rightarrow> emptyStyle | Some s \<Rightarrow> s) in
     \<lparr> paddingTop =
         Number (js_or_num (js_or (js_or (ContentStyle.paddingTop src) (paddingVertical src))
                                  (padding src)) 0),
       paddingBottom =
         Number (js_or_num (js_or (js_or (ContentStyle.paddingBottom src) (paddingVertical src))
                                  (padding src)) 0),
       paddingLeft =
         Number (js_or_num (js_or (js_or (ContentStyle.paddingLeft src) (paddingHorizontal src))
                                  (padding src)) 0),
       paddingRight =
         Number (js_or_num (js_or (js_or (ContentStyle.paddingRight src) (paddingHorizontal src))
                                  (padding src)) 0),
       backgroundColor = ContentStyle.backgroundColor src \<rparr>)"

definition hasUnsupportedKeysInContentContainerStyle :: "ContentStyle option \<Rightarrow> bool" where
  "hasUnsupportedKeysInContentContainerStyle contentContainerStyleSource =
    (let src = (case contentContainerStyleSource of None \<Rightarrow> emptyStyle | Some s \<Rightarrow> s) in
     length (otherKeys src) > 0)"

text \<open>
  \<^verbatim>\<open>Dimension\<close> of recyclerlistview-gaw. The function below mutates the object it is given,
  so dimensions live in a store, addressed by references (\<open>dimRef\<close> is the
  reference held by the parameter \<^verbatim>\<open>dim\<close>).
\<close>

record Dimension =
  height :: real
  width :: real

type_synonym ref = nat

type_synonym dim_store = "ref \<Rightarrow> Dimension"

definition applyContentContainerInsetForLayoutManager ::
  "dim_store \<Rightarrow> ref \<Rightarrow> ContentStyle option \<Rightarrow> bool option \<Rightarrow> dim_store \<times> ref" where
  "applyContentContainerInsetForLayoutManager \<sigma> dimRef contentContainerStyle horizontal =
    (let contentStyle = updateContentStyle emptyStyle contentContainerStyle in
     if truthy_flag horizontal
     then (\<sigma>(dimRef := (\<sigma> dimRef)\<lparr> height := height (\<sigma> dimRef)
                        - (paddingTop contentStyle + paddingBottom contentStyle) \<rparr>), dimRef)
     else (\<sigma>(dimRef := (\<sigma> dimRef)\<lparr> width := width (\<sigma> dimRef)
                        - (paddingLeft contentStyle + paddingRight contentStyle) \<rparr>), dimRef))"

text \<open>
  The call on an object that the caller has just created (an object literal or a spread
  copy) and of which it keeps the returned reference only: the object after the call.
\<close>

definition applyInsetToFresh :: "Dimension \<Rightarrow> ContentStyle option \<Rightarrow> bool option \<Rightarrow> Dimension" where
  "applyInsetToFresh d contentContainerStyle horizontal =
    (case applyContentContainerInsetForLayoutManager (\<lambda>_. d) 0 contentContainerStyle horizontal
     of (\<sigma>', r) \<Rightarrow> \<sigma>' r)"

text \<open>The object that \<^verbatim>\<open>getContentContainerPadding\<close> returns has one of two shapes.\<close>

datatype ContentContainerPadding =
  TopBottom real real
  | LeftRight real real

definition getContentContainerPadding ::
  "ContentStyleExplicit \<Rightarrow> bool option \<Rightarrow> ContentContainerPadding" where
  "getContentContainerPadding contentStyle horizontal =
    (if truthy_flag horizontal
     then TopBottom (paddingTop contentStyle) (paddingBottom contentStyle)
     else LeftRight (paddingLeft contentStyle) (paddingRight contentStyle))"


section \<open>Numbers that may leave the finite range\<close>

text \<open>
  The provider divides by the estimated item size, which the host may set to zero. The
  quotient, and what is computed from it, is a \<open>jsnumber\<close>: a finite real, an infinity or
  \<^verbatim>\<open>NaN\<close>. The two zeros of JavaScript are one here, taken as positive.
\<close>

datatype jsnumber = Finite real | PosInfinity | NegInfinity | NaN

text \<open>\<^verbatim>\<open>a / b\<close> on finite numbers.\<close>

definition js_div :: "real \<Rightarrow> real \<Rightarrow> jsnumber" where
  "js_div a b =
    (if b \<noteq> 0 then Finite (a / b)
     else if a > 0 then PosInfinity
     else if a < 0 then NegInfinity
     else NaN)"

text \<open>\<^verbatim>\<open>Math.round\<close>: the nearest integer, a half rounding up.\<close>

fun Math_round :: "jsnumber \<Rightarrow> jsnumber" where
  "Math_round (Finite v) = Finite (of_int \<lfloor>v + 1 / 2\<rfloor>)"
| "Math_round PosInfinity = PosInfinity"
| "Math_round NegInfinity = NegInfinity"
| "Math_round NaN = NaN"

text \<open>\<^verbatim>\<open>Math.max(a, b)\<close> with a finite \<open>a\<close>.\<close>

fun Math_max :: "real \<Rightarrow> jsnumber \<Rightarrow> jsnumber" where
  "Math_max a (Finite v) = Finite (max a v)"
| "Math_max a PosInfinity = PosInfinity"
| "Math_max a NegInfinity = Finite a"
| "Math_max a NaN = NaN"

text \<open>\<^verbatim>\<open>a * b\<close> with a finite \<open>a\<close>.\<close>

fun js_times :: "real \<Rightarrow> jsnumber \<Rightarrow> jsnumber" where
  "js_times a (Finite v) = Finite (a * v)"
| "js_times a PosInfinity = (if a > 0 then PosInfinity else if a < 0 then NegInfinity else NaN)"
| "js_times a NegInfinity = (if a > 0 then NegInfinity else if a < 0 then PosInfinity else NaN)"
| "js_times a NaN = NaN"


section \<open>Errors\<close>

text \<open>
  The entries of \<^verbatim>\<open>ExceptionList\<close> (errors/ExceptionList.ts is not among the sources) that
  the list component throws as a \<^verbatim>\<open>CustomError\<close>, and the errors that a call may throw.
\<close>

datatype CustomError =
  refreshBooleanMissing
  | stickyWhileHorizontalNotSupported
  | columnsWhileHorizontalNotSupported

datatype jserror = TypeError | RangeError | Custom CustomError


section \<open>The average window (utils/AverageWindow)\<close>

text \<open>
  Modelled from the spec: the class \<^verbatim>\<open>AverageWindow\<close> (utils/AverageWindow.ts) is not among
  the sources. The spec gives it a window size, an integer from 1 on, and a seed value,
  and leaves the averaging function open; the window therefore keeps the samples it was
  fed, oldest first (the spec's \<^verbatim>\<open>sampleCount\<close> is their number). The window size has
  the type \<open>num\<close> of the positive numerals, which holds the integers from 1 on and nothing
  else (\<open>numeral n\<close> is the number).
\<close>

record AverageWindow =
  windowSize :: num
  seedValue :: real
  samples :: "real list"

text \<open>
  Modelled from the spec: \<^verbatim>\<open>new(windowSize: int \<ge> 1, seedValue)\<close>, for a window size
  within that contract; no sample yet.
\<close>

definition AverageWindow_new :: "num \<Rightarrow> real \<Rightarrow> AverageWindow" where
  "AverageWindow_new size0 startValue =
    \<lparr> windowSize = size0, seedValue = startValue, samples = [] \<rparr>"

text \<open>
  Modelled from the spec: the contract of the constructor, on the number that the caller
  computes. A finite integer from 1 on is a window size, every other number is none.
\<close>

fun as_window_size :: "jsnumber \<Rightarrow> num option" where
  "as_window_size (Finite v) =
     (if 1 \<le> v \<and> of_int \<lfloor>v\<rfloor> = v then Some (num_of_nat (nat \<lfloor>v\<rfloor>)) else None)"
| "as_window_size PosInfinity = None"
| "as_window_size NegInfinity = None"
| "as_window_size NaN = None"

text \<open>
  Modelled from the spec: the expression \<^verbatim>\<open>new AverageWindow(size, seed)\<close> on any number.
  Within the contract it yields the new window. Outside the contract the spec says
  nothing: what the constructor does there, throwing or yielding some window, is the
  parameter \<open>outside\<close>.
\<close>

definition construct_AverageWindow ::
  "(jsnumber \<Rightarrow> real \<Rightarrow> jserror + AverageWindow) \<Rightarrow> jsnumber \<Rightarrow> real
   \<Rightarrow> jserror + AverageWindow" where
  "construct_AverageWindow outside size0 startValue =
    (case as_window_size size0 of
       Some n \<Rightarrow> Inr (AverageWindow_new n startValue)
     | None \<Rightarrow> outside size0 startValue)"

text \<open>Modelled from the spec: \<^verbatim>\<open>addValue(v)\<close> folds a new sample into the window.\<close>

definition addValue :: "AverageWindow \<Rightarrow> real \<Rightarrow> AverageWindow" where
  "addValue w v = w\<lparr> samples := samples w @ [v] \<rparr>"

text \<open>
  Modelled from the spec: \<^verbatim>\<open>currentValue\<close> falls back to the seed value when the sample
  count is zero. With samples it is what the averaging function \<open>avg\<close> makes of the window
  size, the seed and the samples; the spec does not fix that function, so it is a
  parameter.
\<close>

definition currentValue ::
  "(num \<Rightarrow> real \<Rightarrow> real list \<Rightarrow> real) \<Rightarrow> AverageWindow \<Rightarrow> real" where
  "currentValue avg w =
    (if samples w = [] then seedValue w else avg (windowSize w) (seedValue w) (samples w))"


section \<open>Props and layouts\<close>

text \<open>
  The scratch record \<^verbatim>\<open>{ span?: number; size?: number }\<close> handed to the host's
  \<^verbatim>\<open>overrideItemLayout\<close>.
\<close>

record MutableLayout =
  span :: "real option"
  size' :: "real option"

text \<open>An item type is a string or a number.\<close>

datatype TypeKey = TypeStr string | TypeNum real

text \<open>
  \<^verbatim>\<open>Layout\<close> of recyclerlistview-gaw extends \<^verbatim>\<open>Dimension\<close> and \<^verbatim>\<open>Point\<close>
  (\<open>x_coord\<close>, \<open>y_coord\<close> and \<open>layoutType\<close> are its \<^verbatim>\<open>x\<close>, \<^verbatim>\<open>y\<close> and \<^verbatim>\<open>type\<close>).
\<close>

record Layout = Dimension +
  x_coord :: real
  y_coord :: real
  isOverridden :: "bool option"
  layoutType :: TypeKey

text \<open>
  The fields of \<^verbatim>\<open>FlashListProps\<close> (FlashListProps.ts is not among the sources)
  that the code below reads. \<open>'a\<close> is the type of the items, \<open>'e\<close> that of
  \<^verbatim>\<open>extraData\<close>. An index is a natural number. A host callback that mutates the scratch
  record returns the record as it leaves it. Host callbacks are taken to return normally.
  Of \<^verbatim>\<open>onRefresh\<close> and \<^verbatim>\<open>ListHeaderComponent\<close> only the presence is read; \<open>style\<close> holds the
  keys of \<^verbatim>\<open>StyleSheet.flatten(style)\<close>.
\<close>

record ('a, 'e) FlashListProps =
  data :: "'a list option"
  numColumns :: "real option"
  horizontal :: "bool option"
  estimatedItemSize :: "real option"
  contentContainerStyle :: "ContentStyle option"
  overrideItemLayout ::
    "(MutableLayout \<Rightarrow> 'a option \<Rightarrow> nat \<Rightarrow> real \<Rightarrow> 'e option \<Rightarrow> MutableLayout) option"
  getItemType :: "('a option \<Rightarrow> nat \<Rightarrow> 'e option \<Rightarrow> TypeKey option) option"
  extraData :: "'e option"
  onRefresh :: "unit option"
  refreshing :: "bool option"
  stickyHeaderIndices :: "nat list option"
  style :: "string list option"
  estimatedListSize :: "Dimension option"
  estimatedFirstItemOffset :: "real option"
  ListHeaderComponent :: "unit option"

text \<open>\<^verbatim>\<open>arr[index]\<close>: \<^verbatim>\<open>undefined\<close> past the end.\<close>

definition item_at :: "'a list \<Rightarrow> nat \<Rightarrow> 'a option" where
  "item_at xs index = (if index < length xs then Some (xs ! index) else None)"



section \<open>The layout provider (GridLayoutProviderWithProps.ts)\<close>

text \<open>
  The fields of the class; \<open>hasExpired\<close> is \<^verbatim>\<open>_hasExpired\<close>, read by the getter of that name,
  \<open>maxSpan\<close> and \<open>acceptableRelayoutDelta\<close> are what the constructor hands to the base class.
\<close>

record ('a, 'e) GridLayoutProviderWithProps =
  props :: "('a, 'e) FlashListProps"
  layoutObject :: MutableLayout
  averageWindow :: AverageWindow
  renderWindowInsets :: Dimension
  hasExpired :: bool
  maxSpan :: real
  acceptableRelayoutDelta :: "real option"

text \<open>
  \<^verbatim>\<open>public defaultEstimatedItemSize = 100\<close>; nothing in the repository assigns to it.
\<close>

definition defaultEstimatedItemSize :: real where
  "defaultEstimatedItemSize = 100"

text \<open>The scratch record is one object: resetting it changes the provider.\<close>

definition getCleanLayoutObj ::
  "('a, 'e) GridLayoutProviderWithProps \<Rightarrow> ('a, 'e) GridLayoutProviderWithProps" where
  "getCleanLayoutObj p = p\<lparr> layoutObject := \<lparr> span = None, size' = None \<rparr> \<rparr>"

definition getAdjustedRenderWindowSize ::
  "('a, 'e) GridLayoutProviderWithProps \<Rightarrow> Dimension \<Rightarrow> Dimension" where
  "getAdjustedRenderWindowSize p renderWindowSize =
    applyInsetToFresh renderWindowSize (contentContainerStyle (props p))
      (Some (truthy_flag (horizontal (props p))))"

definition averageItemSize ::
  "(num \<Rightarrow> real \<Rightarrow> real list \<Rightarrow> real) \<Rightarrow> ('a, 'e) GridLayoutProviderWithProps \<Rightarrow> real" where
  "averageItemSize avg p = currentValue avg (averageWindow p)"

text \<open>
  The three closures that the constructor passes to the base class. Each takes the
  callback it wraps (a constructor argument), which may throw and may mutate the scratch
  record: it returns its result or the error, and the scratch record as it leaves it.
\<close>

definition provider_getLayoutType ::
  "(nat \<Rightarrow> ('a, 'e) FlashListProps \<Rightarrow> MutableLayout \<Rightarrow> (jserror + TypeKey) \<times> MutableLayout)
   \<Rightarrow> nat \<Rightarrow> ('a, 'e) GridLayoutProviderWithProps
   \<Rightarrow> (jserror + TypeKey) \<times> ('a, 'e) GridLayoutProviderWithProps" where
  "provider_getLayoutType getLayoutType i p =
    (let p1 = getCleanLayoutObj p in
     case getLayoutType i (props p1) (layoutObject p1) of
       (r, m) \<Rightarrow> (r, p1\<lparr> layoutObject := m \<rparr>))"

definition provider_getSpan ::
  "(nat \<Rightarrow> ('a, 'e) FlashListProps \<Rightarrow> MutableLayout \<Rightarrow> (jserror + real) \<times> MutableLayout)
   \<Rightarrow> nat \<Rightarrow> ('a, 'e) GridLayoutProviderWithProps
   \<Rightarrow> (jserror + real) \<times> ('a, 'e) GridLayoutProviderWithProps" where
  "provider_getSpan getSpan i p =
    (let p1 = getCleanLayoutObj p in
     case getSpan i (props p1) (layoutObject p1) of
       (r, m) \<Rightarrow> (r, p1\<lparr> layoutObject := m \<rparr>))"

definition provider_getHeightOrWidth ::
  "(num \<Rightarrow> real \<Rightarrow> real list \<Rightarrow> real)
   \<Rightarrow> (nat \<Rightarrow> ('a, 'e) FlashListProps \<Rightarrow> MutableLayout
        \<Rightarrow> (jserror + real option) \<times> MutableLayout)
   \<Rightarrow> nat \<Rightarrow> ('a, 'e) GridLayoutProviderWithProps
   \<Rightarrow> (jserror + real) \<times> ('a, 'e) GridLayoutProviderWithProps" where
  "provider_getHeightOrWidth avg getHeightOrWidth i p =
    (let p1 = getCleanLayoutObj p in
     case getHeightOrWidth i (props p1) (layoutObject p1) of
       (r, m) \<Rightarrow>
         (let p2 = p1\<lparr> layoutObject := m \<rparr> in
          case r of
            Inl e \<Rightarrow> (Inl e, p2)
          | Inr v \<Rightarrow> (Inr (nullish_num v (averageItemSize avg p2)), p2)))"

text \<open>
  The constructor: the field initialisers, then its body. The window size it asks for is
  the literal 1, which is within the contract of \<^verbatim>\<open>AverageWindow\<close>.
\<close>

definition GridLayoutProviderWithProps_new ::
  "real \<Rightarrow> ('a, 'e) FlashListProps \<Rightarrow> real option \<Rightarrow> ('a, 'e) GridLayoutProviderWithProps" where
  "GridLayoutProviderWithProps_new maxSpan0 props0 acceptableRelayoutDelta0 =
    (let p = \<lparr> props = props0,
               layoutObject = \<lparr> span = None, size' = None \<rparr>,
               averageWindow = AverageWindow_new num.One
                 (nullish_num (estimatedItemSize props0) defaultEstimatedItemSize),
               renderWindowInsets = \<lparr> height = 0, width = 0 \<rparr>,
               hasExpired = False,
               maxSpan = maxSpan0,
               acceptableRelayoutDelta = acceptableRelayoutDelta0 \<rparr> in
     p\<lparr> renderWindowInsets := getAdjustedRenderWindowSize p (renderWindowInsets p) \<rparr>)"

text \<open>\<^verbatim>\<open>updateProps\<close> returns \<^verbatim>\<open>this\<close>: the provider after the call (the logging is left out).\<close>

definition updateProps ::
  "('a, 'e) GridLayoutProviderWithProps \<Rightarrow> ('a, 'e) FlashListProps
   \<Rightarrow> ('a, 'e) GridLayoutProviderWithProps" where
  "updateProps p newProps =
    (let newInsetValues =
           applyInsetToFresh \<lparr> height = 0, width = 0 \<rparr> (contentContainerStyle newProps)
             (Some (truthy_flag (horizontal newProps))) in
     p\<lparr> hasExpired :=
           hasExpired p \<or>
           numColumns (props p) \<noteq> numColumns newProps \<or>
           height newInsetValues \<noteq> height (renderWindowInsets p) \<or>
           width newInsetValues \<noteq> width (renderWindowInsets p),
        renderWindowInsets := newInsetValues,
        props := newProps \<rparr>)"

definition markExpired ::
  "('a, 'e) GridLayoutProviderWithProps \<Rightarrow> ('a, 'e) GridLayoutProviderWithProps" where
  "markExpired p = p\<lparr> hasExpired := True \<rparr>"

text \<open>
  The layout manager belongs to recyclerlistview-gaw. \<open>lm\<close> is what
  \<^verbatim>\<open>this.getLayoutManager()?.getLayouts()\<close> yields when \<^verbatim>\<open>reportItemLayout\<close> is called:
  \<open>None\<close> without a layout manager, else its array of layouts. The call returns that array
  and the provider as it leaves them.
\<close>

definition reportItemLayout ::
  "Layout list option \<Rightarrow> nat \<Rightarrow> ('a, 'e) GridLayoutProviderWithProps
   \<Rightarrow> Layout list option \<times> ('a, 'e) GridLayoutProviderWithProps" where
  "reportItemLayout lm index p =
    (case lm of
       None \<Rightarrow> (lm, p)
     | Some layouts \<Rightarrow>
         (case item_at layouts index of
            None \<Rightarrow> (lm, p)
          | Some layout \<Rightarrow>
              (Some (layouts[index := layout\<lparr> isOverridden := Some True \<rparr>]),
               p\<lparr> averageWindow :=
                    addValue (averageWindow p)
                      (if truthy_flag (horizontal (props p))
                       then width layout else height layout) \<rparr>)))"

text \<open>The loop of \<^verbatim>\<open>updateCachedDimensions\<close>, from index \<open>i\<close> on.\<close>

fun updateCachedDimensions :: "(nat \<Rightarrow> Layout \<Rightarrow> Layout) \<Rightarrow> nat \<Rightarrow> Layout list \<Rightarrow> Layout list" where
  "updateCachedDimensions styleOverrides i [] = []"
| "updateCachedDimensions styleOverrides i (l # ls) =
     styleOverrides i l # updateCachedDimensions styleOverrides (Suc i) ls"

text \<open>The constant \<^verbatim>\<open>estimatedItemCount\<close> of \<^verbatim>\<open>newLayoutManager\<close>.\<close>

definition estimatedItemCount ::
  "('a, 'e) GridLayoutProviderWithProps \<Rightarrow> Dimension \<Rightarrow> jsnumber" where
  "estimatedItemCount p renderWindowSize =
    Math_max 3
      (Math_round
        (js_div
          (if truthy_flag (horizontal (props p))
           then width renderWindowSize else height renderWindowSize)
          (nullish_num (estimatedItemSize (props p)) defaultEstimatedItemSize)))"

text \<open>
  \<^verbatim>\<open>newLayoutManager\<close>. The base class and its layout manager belong to
  recyclerlistview-gaw: \<open>superNewLayoutManager\<close> is \<^verbatim>\<open>super.newLayoutManager\<close>, yielding a
  manager of some type \<open>'m\<close>, and \<open>getStyleOverridesForIndex m i\<close> is the spread of
  \<^verbatim>\<open>m.getStyleOverridesForIndex(i)\<close> over a layout. When the constructor of the average
  window throws, so does the call, before anything is assigned. Otherwise the call
  returns the manager, the array \<^verbatim>\<open>cachedLayouts\<close> as it leaves it, and the provider.
\<close>

definition newLayoutManager ::
  "(num \<Rightarrow> real \<Rightarrow> real list \<Rightarrow> real)
   \<Rightarrow> (jsnumber \<Rightarrow> real \<Rightarrow> jserror + AverageWindow)
   \<Rightarrow> (Dimension \<Rightarrow> bool option \<Rightarrow> Layout list option \<Rightarrow> 'm)
   \<Rightarrow> ('m \<Rightarrow> nat \<Rightarrow> Layout \<Rightarrow> Layout)
   \<Rightarrow> Dimension \<Rightarrow> bool option \<Rightarrow> Layout list option
   \<Rightarrow> ('a, 'e) GridLayoutProviderWithProps
   \<Rightarrow> jserror + 'm \<times> Layout list option \<times> ('a, 'e) GridLayoutProviderWithProps" where
  "newLayoutManager avg outside superNewLayoutManager getStyleOverridesForIndex
      renderWindowSize isHorizontal cachedLayouts p =
    (case construct_AverageWindow outside
            (js_times (2 * js_or_num (numColumns (props p)) 1)
               (estimatedItemCount p renderWindowSize))
            (currentValue avg (averageWindow p)) of
       Inl e \<Rightarrow> Inl e
     | Inr w \<Rightarrow>
         (let p' = p\<lparr> averageWindow := w \<rparr>;
              newLayoutManager0 =
                superNewLayoutManager (getAdjustedRenderWindowSize p' renderWindowSize)
                  isHorizontal cachedLayouts
          in Inr (newLayoutManager0,
                  (case cachedLayouts of
                     None \<Rightarrow> None
                   | Some cached \<Rightarrow>
                       Some (updateCachedDimensions
                               (getStyleOverridesForIndex newLayoutManager0) 0 cached)),
                  p')))"


section \<open>The list component (FlashList.tsx)\<close>

text \<open>
  The three callbacks that \<^verbatim>\<open>getLayoutProvider\<close> gives to the provider. Reading
  \<^verbatim>\<open>props.data[index]\<close> throws a \<^verbatim>\<open>TypeError\<close> when \<^verbatim>\<open>data\<close> is null; the optional call
  \<^verbatim>\<open>f?.(...)\<close> does not evaluate its arguments when \<open>f\<close> is absent.
\<close>

definition getLayoutType_cb ::
  "nat \<Rightarrow> ('a, 'e) FlashListProps \<Rightarrow> MutableLayout \<Rightarrow> (jserror + TypeKey) \<times> MutableLayout" where
  "getLayoutType_cb index ps mutableLayout =
    (case getItemType ps of
       None \<Rightarrow> (Inr (TypeNum 0), mutableLayout)
     | Some f \<Rightarrow>
         (case data ps of
            None \<Rightarrow> (Inl TypeError, mutableLayout)
          | Some items \<Rightarrow>
              (case f (item_at items index) index (extraData ps) of
                 None \<Rightarrow> (Inr (TypeNum 0), mutableLayout)
               | Some (TypeStr t) \<Rightarrow>
                   (Inr (if t = [] then TypeNum 0 else TypeStr t), mutableLayout)
               | Some (TypeNum n) \<Rightarrow>
                   (Inr (if n = 0 then TypeNum 0 else TypeNum n), mutableLayout))))"

text \<open>The host's \<^verbatim>\<open>overrideItemLayout\<close>, called on the scratch record.\<close>

definition call_overrideItemLayout ::
  "real \<Rightarrow> nat \<Rightarrow> ('a, 'e) FlashListProps \<Rightarrow> MutableLayout \<Rightarrow> jserror + MutableLayout" where
  "call_overrideItemLayout numColumns0 index ps mutableLayout =
    (case overrideItemLayout ps of
       None \<Rightarrow> Inr mutableLayout
     | Some f \<Rightarrow>
         (case data ps of
            None \<Rightarrow> Inl TypeError
          | Some items \<Rightarrow>
              Inr (f mutableLayout (item_at items index) index numColumns0 (extraData ps))))"

definition getSpan_cb ::
  "real \<Rightarrow> nat \<Rightarrow> ('a, 'e) FlashListProps \<Rightarrow> MutableLayout \<Rightarrow> (jserror + real) \<times> MutableLayout" where
  "getSpan_cb numColumns0 index ps mutableLayout =
    (case call_overrideItemLayout numColumns0 index ps mutableLayout of
       Inl e \<Rightarrow> (Inl e, mutableLayout)
     | Inr m \<Rightarrow> (Inr (nullish_num (span m) 1), m))"

definition getHeightOrWidth_cb ::
  "real \<Rightarrow> nat \<Rightarrow> ('a, 'e) FlashListProps \<Rightarrow> MutableLayout
   \<Rightarrow> (jserror + real option) \<times> MutableLayout" where
  "getHeightOrWidth_cb numColumns0 index ps mutableLayout =
    (case call_overrideItemLayout numColumns0 index ps mutableLayout of
       Inl e \<Rightarrow> (Inl e, mutableLayout)
     | Inr m \<Rightarrow> (Inr (size' m), m))"

text \<open>
  \<^verbatim>\<open>validateProps\<close> throws a \<^verbatim>\<open>CustomError\<close> or returns, having logged warnings (the list).
  \<open>dev\<close> is the global \<^verbatim>\<open>__DEV__\<close>.
\<close>

datatype Warning = styleUnsupported | styleContentContainerUnsupported

definition validateProps :: "bool \<Rightarrow> ('a, 'e) FlashListProps \<Rightarrow> CustomError + Warning list" where
  "validateProps dev ps =
    (if onRefresh ps \<noteq> None \<and> refreshing ps = None
     then Inl refreshBooleanMissing
     else if (case stickyHeaderIndices ps of None \<Rightarrow> False | Some ixs \<Rightarrow> length ixs > 0)
             \<and> truthy_flag (horizontal ps)
     then Inl stickyWhileHorizontalNotSupported
     else if (case numColumns ps of None \<Rightarrow> False | Some n \<Rightarrow> n > 1)
             \<and> truthy_flag (horizontal ps)
     then Inl columnsWhileHorizontalNotSupported
     else Inr
       ((if dev \<and> length (case style ps of None \<Rightarrow> [] | Some ks \<Rightarrow> ks) > 0
         then [styleUnsupported] else [])
        @ (if hasUnsupportedKeysInContentContainerStyle (contentContainerStyle ps)
           then [styleContentContainerUnsupported] else [])))"

text \<open>
  What the constructor sets up of a \<^verbatim>\<open>FlashList\<close>: the two sizes it computes and the
  initial state of \<^verbatim>\<open>getInitialMutableState\<close> (no layout provider, zero columns). The
  clock, the viewability manager and the item animator are left out.
\<close>

record ('a, 'e) FlashList =
  listFixedDimensionSize :: real
  distanceFromWindow :: real
  state_numColumns :: real
  state_layoutProvider :: "('a, 'e) GridLayoutProviderWithProps option"
  logged :: "Warning list"

definition FlashList_new :: "bool \<Rightarrow> ('a, 'e) FlashListProps \<Rightarrow> CustomError + ('a, 'e) FlashList" where
  "FlashList_new dev ps =
    (case validateProps dev ps of
       Inl e \<Rightarrow> Inl e
     | Inr ws \<Rightarrow>
         Inr \<lparr> listFixedDimensionSize =
                 (case estimatedListSize ps of
                    None \<Rightarrow> 0
                  | Some d \<Rightarrow> if truthy_flag (horizontal ps) then height d else width d),
               distanceFromWindow =
                 nullish_num (estimatedFirstItemOffset ps)
                   (if ListHeaderComponent ps \<noteq> None then 1 else 0),
               state_numColumns = 0,
               state_layoutProvider = None,
               logged = ws \<rparr>)"


section \<open>Sequences of calls on one provider\<close>

text \<open>
  The calls that a provider receives from outside: \<^verbatim>\<open>updateProps\<close> with the new props,
  \<^verbatim>\<open>markExpired\<close>, \<^verbatim>\<open>reportItemLayout\<close> with the index (and the layouts that the layout
  manager holds at that moment), \<^verbatim>\<open>newLayoutManager\<close> with its three arguments.
\<close>

datatype ('a, 'e) provider_call =
  UpdateProps "('a, 'e) FlashListProps"
  | MarkExpired
  | ReportItemLayout "Layout list option" nat
  | NewLayoutManager Dimension "bool option" "Layout list option"

text \<open>
  The provider after one call. A \<^verbatim>\<open>newLayoutManager\<close> call that throws has assigned nothing:
  the provider is as before.
\<close>

fun provider_step ::
  "(num \<Rightarrow> real \<Rightarrow> real list \<Rightarrow> real)
   \<Rightarrow> (jsnumber \<Rightarrow> real \<Rightarrow> jserror + AverageWindow)
   \<Rightarrow> (Dimension \<Rightarrow> bool option \<Rightarrow> Layout list option \<Rightarrow> 'm)
   \<Rightarrow> ('m \<Rightarrow> nat \<Rightarrow> Layout \<Rightarrow> Layout)
   \<Rightarrow> ('a, 'e) provider_call \<Rightarrow> ('a, 'e) GridLayoutProviderWithProps
   \<Rightarrow> ('a, 'e) GridLayoutProviderWithProps" where
  "provider_step avg outside sn ov (UpdateProps newProps) p = updateProps p newProps"
| "provider_step avg outside sn ov MarkExpired p = markExpired p"
| "provider_step avg outside sn ov (ReportItemLayout lm index) p =
     snd (reportItemLayout lm index p)"
| "provider_step avg outside sn ov (NewLayoutManager renderWindowSize isHorizontal cachedLayouts) p =
     (case newLayoutManager avg outside sn ov renderWindowSize isHorizontal cachedLayouts p of
        Inl e \<Rightarrow> p
      | Inr (m, cached, p') \<Rightarrow> p')"

fun provider_steps ::
  "(num \<Rightarrow> real \<Rightarrow> real list \<Rightarrow> real)
   \<Rightarrow> (jsnumber \<Rightarrow> real \<Rightarrow> jserror + AverageWindow)
   \<Rightarrow> (Dimension \<Rightarrow> bool option \<Rightarrow> Layout list option \<Rightarrow> 'm)
   \<Rightarrow> ('m \<Rightarrow> nat \<Rightarrow> Layout \<Rightarrow> Layout)
   \<Rightarrow> ('a, 'e) provider_call list \<Rightarrow> ('a, 'e) GridLayoutProviderWithProps
   \<Rightarrow> ('a, 'e) GridLayoutProviderWithProps" where
  "provider_steps avg outside sn ov [] p = p"
| "provider_steps avg outside sn ov (c # cs) p =
     provider_steps avg outside sn ov cs (provider_step avg outside sn ov c p)"


section \<open>The rules in words\<close>

text \<open>
  The rule \<^verbatim>\<open>edge ?? axis ?? uniform ?? 0\<close>: the first of the three values that is defined,
  else 0.
\<close>

fun first_defined :: "real option list \<Rightarrow> real" where
  "first_defined [] = 0"
| "first_defined (None # vs) = first_defined vs"
| "first_defined (Some n # vs) = n"

text \<open>The first of the values that is defined and not zero, else 0.\<close>

fun first_nonzero :: "real option list \<Rightarrow> real" where
  "first_nonzero [] = 0"
| "first_nonzero (None # vs) = first_nonzero vs"
| "first_nonzero (Some n # vs) = (if n \<noteq> 0 then n else first_nonzero vs)"


text \<open>
  The pair complementary to the one that the inset function subtracts: left and right
  for a horizontal list, top and bottom otherwise.
\<close>

definition complementaryPadding ::
  "ContentStyleExplicit \<Rightarrow> bool option \<Rightarrow> ContentContainerPadding" where
  "complementaryPadding contentStyle isHorizontal =
    (if truthy_flag isHorizontal
     then LeftRight (paddingLeft contentStyle) (paddingRight contentStyle)
     else TopBottom (paddingTop contentStyle) (paddingBottom contentStyle))"

text \<open>
  The three invalid configurations: a refresh handler without a boolean \<^verbatim>\<open>refreshing\<close>;
  sticky header indices on a horizontal list; more than one column on a horizontal list.
\<close>

definition refreshWithoutBoolean :: "('a, 'e) FlashListProps \<Rightarrow> bool" where
  "refreshWithoutBoolean ps = (onRefresh ps \<noteq> None \<and> refreshing ps = None)"

definition stickyWhileHorizontal :: "('a, 'e) FlashListProps \<Rightarrow> bool" where
  "stickyWhileHorizontal ps =
    ((case stickyHeaderIndices ps of None \<Rightarrow> False | Some ixs \<Rightarrow> ixs \<noteq> [])
     \<and> horizontal ps = Some True)"

definition columnsWhileHorizontal :: "('a, 'e) FlashListProps \<Rightarrow> bool" where
  "columnsWhileHorizontal ps =
    ((case numColumns ps of None \<Rightarrow> False | Some n \<Rightarrow> n > 1) \<and> horizontal ps = Some True)"


section \<open>Example inputs\<close>

text \<open>\<^verbatim>\<open>FlashList.defaultProps\<close>, every other prop absent; items are numbers here.\<close>

definition defaultProps :: "(nat, unit) FlashListProps" where
  "defaultProps =
    \<lparr> data = Some [], numColumns = Some 1, horizontal = None, estimatedItemSize = None,
      contentContainerStyle = None, overrideItemLayout = None, getItemType = None,
      extraData = None, onRefresh = None, refreshing = None, stickyHeaderIndices = None,
      style = None, estimatedListSize = None, estimatedFirstItemOffset = None,
      ListHeaderComponent = None \<rparr>"

text \<open>The style \<^verbatim>\<open>{ paddingTop: 0, paddingVertical: 10 }\<close>.\<close>

definition zeroTopStyle :: ContentStyle where
  "zeroTopStyle = emptyStyle\<lparr> ContentStyle.paddingTop := Some 0, paddingVertical := Some 10 \<rparr>"

text \<open>The style \<^verbatim>\<open>{ paddingTop: 5, paddingVertical: 10, padding: 20 }\<close>.\<close>

definition mixedStyle :: ContentStyle where
  "mixedStyle = emptyStyle\<lparr> ContentStyle.paddingTop := Some 5, paddingVertical := Some 10,
     padding := Some 20 \<rparr>"

text \<open>The style \<^verbatim>\<open>{ padding: 10 }\<close>.\<close>

definition uniformStyle :: ContentStyle where
  "uniformStyle = emptyStyle\<lparr> padding := Some 10 \<rparr>"

text \<open>A host callback that writes the span 0, and one that writes the size 40.\<close>

definition writeSpanZero ::
  "MutableLayout \<Rightarrow> nat option \<Rightarrow> nat \<Rightarrow> real \<Rightarrow> unit option \<Rightarrow> MutableLayout" where
  "writeSpanZero m item index n extra = m\<lparr> span := Some 0 \<rparr>"

definition writeSizeForty ::
  "MutableLayout \<Rightarrow> nat option \<Rightarrow> nat \<Rightarrow> real \<Rightarrow> unit option \<Rightarrow> MutableLayout" where
  "writeSizeForty m item index n extra = m\<lparr> size' := Some 40 \<rparr>"

definition zeroSpanProps :: "(nat, unit) FlashListProps" where
  "zeroSpanProps = defaultProps\<lparr> data := Some [7, 8], overrideItemLayout := Some writeSpanZero \<rparr>"

definition sizeFortyProps :: "(nat, unit) FlashListProps" where
  "sizeFortyProps = defaultProps\<lparr> data := Some [7, 8], overrideItemLayout := Some writeSizeForty \<rparr>"


definition twoColumnsProps :: "(nat, unit) FlashListProps" where
  "twoColumnsProps = defaultProps\<lparr> numColumns := Some 2 \<rparr>"

definition horizontalGridProps :: "(nat, unit) FlashListProps" where
  "horizontalGridProps = defaultProps\<lparr> numColumns := Some 2, horizontal := Some True \<rparr>"

definition refreshProps :: "(nat, unit) FlashListProps" where
  "refreshProps = defaultProps\<lparr> onRefresh := Some () \<rparr>"

definition stickyHorizontalProps :: "(nat, unit) FlashListProps" where
  "stickyHorizontalProps = defaultProps\<lparr> stickyHeaderIndices := Some [0], horizontal := Some True \<rparr>"

definition paddedProps :: "(nat, unit) FlashListProps" where
  "paddedProps = defaultProps\<lparr> contentContainerStyle := Some uniformStyle \<rparr>"

text \<open>
  An averaging function (the mean of the samples), a constructor that throws outside its
  contract, and a stand-in for the base class.
\<close>

definition throwOutside :: "jsnumber \<Rightarrow> real \<Rightarrow> jserror + AverageWindow" where
  "throwOutside size0 startValue = Inl RangeError"

definition meanOfSamples :: "num \<Rightarrow> real \<Rightarrow> real list \<Rightarrow> real" where
  "meanOfSamples ws seed vs = sum_list vs / real (length vs)"

definition managerOfCached :: "Dimension \<Rightarrow> bool option \<Rightarrow> Layout list option \<Rightarrow> Layout list" where
  "managerOfCached renderWindowSize isHorizontal cachedLayouts =
    (case cachedLayouts of None \<Rightarrow> [] | Some ls \<Rightarrow> ls)"

definition noOverrides :: "Layout list \<Rightarrow> nat \<Rightarrow> Layout \<Rightarrow> Layout" where
  "noOverrides m i l = l"

definition viewport :: Dimension where
  "viewport = \<lparr> height = 600, width = 300 \<rparr>"

definition layoutA :: Layout where
  "layoutA = \<lparr> height = 50, width = 300, x_coord = 0, y_coord = 0,
     isOverridden = None, layoutType = TypeNum 0 \<rparr>"

definition dimStore :: dim_store where
  "dimStore = (\<lambda>r. if r = 1 then \<lparr> height = 600, width = 300 \<rparr> else \<lparr> height = 0, width = 0 \<rparr>)"

section \<open>Properties of the content container styles\<close>

lemma js_or_chain: "js_or_num (js_or (js_or a b) c) 0 = first_nonzero [a, b, c]"
  by (cases a; cases b; cases c) (simp_all add: js_or_num_def js_or_def truthy_num_def)

text \<open>
  C1, as the code has it: for every style object, each edge's padding is the first of the
  edge-specific value, the axis value (\<^verbatim>\<open>paddingVertical\<close> for top and bottom,
  \<^verbatim>\<open>paddingHorizontal\<close> for left and right) and the uniform \<^verbatim>\<open>padding\<close> that is defined
  and not zero, and 0 when there is none; the background colour passes through unchanged;
  an absent style object resolves to four zero paddings and no colour.
\<close>

theorem updateContentStyle_precedence:
  "updateContentStyle t (Some s) =
     \<lparr> paddingTop = first_nonzero [ContentStyle.paddingTop s, paddingVertical s, padding s],
       paddingBottom = first_nonzero [ContentStyle.paddingBottom s, paddingVertical s, padding s],
       paddingLeft = first_nonzero [ContentStyle.paddingLeft s, paddingHorizontal s, padding s],
       paddingRight = first_nonzero [ContentStyle.paddingRight s, paddingHorizontal s, padding s],
       backgroundColor = ContentStyle.backgroundColor s \<rparr>
   \<and> updateContentStyle t None =
     \<lparr> paddingTop = 0, paddingBottom = 0, paddingLeft = 0, paddingRight = 0,
       backgroundColor = None \<rparr>"
  by (simp add: updateContentStyle_def Let_def Number_def js_or_chain emptyStyle_def)

text \<open>
  The style of the spec's example resolves its top padding to the edge value 5 and its
  left padding to the uniform value 20; a top padding set to 0 beside a vertical padding
  of 10 resolves to 10.
\<close>

theorem updateContentStyle_precedence_witness:
  "paddingTop (updateContentStyle emptyStyle (Some mixedStyle)) = 5
   \<and> paddingLeft (updateContentStyle emptyStyle (Some mixedStyle)) = 20
   \<and> paddingTop (updateContentStyle emptyStyle (Some zeroTopStyle)) = 10
   \<and> backgroundColor (updateContentStyle emptyStyle (Some mixedStyle)) = None"
  using updateContentStyle_precedence [of emptyStyle mixedStyle]
    updateContentStyle_precedence [of emptyStyle zeroTopStyle]
  by (simp add: mixedStyle_def zeroTopStyle_def emptyStyle_def)

text \<open>
  C1 as stated fails: with \<^verbatim>\<open>{ paddingTop: 0, paddingVertical: 10 }\<close> the top padding is set
  to 0, yet it resolves to 10, which is not the first defined value of the three.
\<close>

theorem updateContentStyle_nullish_counterexample:
  "ContentStyle.paddingTop zeroTopStyle = Some 0
   \<and> paddingTop (updateContentStyle emptyStyle (Some zeroTopStyle)) = 10
   \<and> paddingTop (updateContentStyle emptyStyle (Some zeroTopStyle))
       \<noteq> first_defined [ContentStyle.paddingTop zeroTopStyle, paddingVertical zeroTopStyle,
                          padding zeroTopStyle]"
  by (simp add: updateContentStyle_def Let_def Number_def js_or_num_def js_or_def
      truthy_num_def zeroTopStyle_def emptyStyle_def)

text \<open>
  C8, as the code has it: the call returns the reference it was given and changes the
  object behind it only: when \<open>horizontal\<close> is true the height loses the resolved top and
  bottom paddings and the width stays, otherwise the width loses the resolved left and
  right paddings and the height stays. \<^verbatim>\<open>getContentContainerPadding\<close> returns the pair of
  that same axis: the top and bottom paddings when \<open>horizontal\<close> is true, the left and right
  paddings otherwise.
\<close>

theorem inset_applied_to_dim:
  "applyContentContainerInsetForLayoutManager \<sigma> r src h =
     (\<sigma>(r := (if h = Some True
              then \<lparr> height = height (\<sigma> r)
                        - (paddingTop (updateContentStyle emptyStyle src)
                           + paddingBottom (updateContentStyle emptyStyle src)),
                     width = width (\<sigma> r) \<rparr>
              else \<lparr> height = height (\<sigma> r),
                     width = width (\<sigma> r)
                        - (paddingLeft (updateContentStyle emptyStyle src)
                           + paddingRight (updateContentStyle emptyStyle src)) \<rparr>)), r)
   \<and> getContentContainerPadding cs h =
     (if h = Some True then TopBottom (paddingTop cs) (paddingBottom cs)
      else LeftRight (paddingLeft cs) (paddingRight cs))"
  by (cases "\<sigma> r")
    (simp add: applyContentContainerInsetForLayoutManager_def Let_def truthy_flag_def
      getContentContainerPadding_def)

text \<open>
  A viewport of width 300 with a uniform padding of 10 on a vertical list: the width
  becomes 280, the height and the other objects of the store stay, and the padding pair
  returned is left and right, 10 each.
\<close>

theorem inset_applied_to_dim_witness:
  "snd (applyContentContainerInsetForLayoutManager dimStore 1 (Some uniformStyle) (Some False)) = 1
   \<and> fst (applyContentContainerInsetForLayoutManager dimStore 1 (Some uniformStyle) (Some False)) 1
       = \<lparr> height = 600, width = 280 \<rparr>
   \<and> fst (applyContentContainerInsetForLayoutManager dimStore 1 (Some uniformStyle) (Some False)) 2
       = dimStore 2
   \<and> getContentContainerPadding (updateContentStyle emptyStyle (Some uniformStyle)) (Some False)
       = LeftRight 10 10"
  using inset_applied_to_dim [of dimStore 1 "Some uniformStyle" "Some False"
      "updateContentStyle emptyStyle (Some uniformStyle)"]
  by (simp add: dimStore_def updateContentStyle_def Let_def Number_def js_or_num_def js_or_def
      truthy_num_def uniformStyle_def emptyStyle_def)


text \<open>
  C8 as stated fails: on a vertical list with a uniform padding of 10 and a viewport 300
  wide, the inset function subtracts left and right (the width becomes 280), and
  \<^verbatim>\<open>getContentContainerPadding\<close> returns left and right again, 10 each, not the
  complementary pair of top and bottom.
\<close>

theorem padding_pair_not_complementary_counterexample:
  "fst (applyContentContainerInsetForLayoutManager dimStore 1 (Some uniformStyle) (Some False)) 1
     = \<lparr> height = 600, width = 280 \<rparr>
   \<and> getContentContainerPadding (updateContentStyle emptyStyle (Some uniformStyle)) (Some False)
       = LeftRight 10 10
   \<and> complementaryPadding (updateContentStyle emptyStyle (Some uniformStyle)) (Some False)
       = TopBottom 10 10
   \<and> getContentContainerPadding (updateContentStyle emptyStyle (Some uniformStyle)) (Some False)
       \<noteq> complementaryPadding (updateContentStyle emptyStyle (Some uniformStyle)) (Some False)"
  by (simp add: applyContentContainerInsetForLayoutManager_def getContentContainerPadding_def
      complementaryPadding_def truthy_flag_def dimStore_def updateContentStyle_def Let_def
      Number_def js_or_num_def js_or_def truthy_num_def uniformStyle_def emptyStyle_def)


section \<open>Properties of the per-index lookups\<close>

text \<open>
  C2, as the code has it: when \<^verbatim>\<open>data\<close> is an array, the span lookup returns the span that
  the host's \<^verbatim>\<open>overrideItemLayout\<close> wrote into the freshly reset scratch record, whatever
  its value, and 1 when the host left the span undefined or gave no such callback.
\<close>

theorem span_lookup_default:
  assumes "data (props p) = Some items"
  shows "fst (provider_getSpan (getSpan_cb n) i p) =
    Inr (case overrideItemLayout (props p) of
           None \<Rightarrow> 1
         | Some f \<Rightarrow>
             (case span (f \<lparr> span = None, size' = None \<rparr> (item_at items i) i n
                           (extraData (props p))) of
                None \<Rightarrow> 1
              | Some s \<Rightarrow> s))"
  using assms
  by (simp add: provider_getSpan_def getCleanLayoutObj_def getSpan_cb_def
      call_overrideItemLayout_def nullish_num_def split: option.splits)

text \<open>A host that writes the span 0 gets the span 0; without a callback the span is 1.\<close>

theorem span_lookup_default_witness:
  "data (props (GridLayoutProviderWithProps_new 1 zeroSpanProps None)) = Some [7, 8]
   \<and> fst (provider_getSpan (getSpan_cb 1) 0 (GridLayoutProviderWithProps_new 1 zeroSpanProps None))
       = Inr 0
   \<and> fst (provider_getSpan (getSpan_cb 1) 0 (GridLayoutProviderWithProps_new 1 defaultProps None))
       = Inr 1"
  using span_lookup_default [of "GridLayoutProviderWithProps_new 1 zeroSpanProps None" "[7, 8]" 1 0]
    span_lookup_default [of "GridLayoutProviderWithProps_new 1 defaultProps None" "[]" 1 0]
  by (simp add: GridLayoutProviderWithProps_new_def Let_def zeroSpanProps_def defaultProps_def
      writeSpanZero_def)

text \<open>
  C2 as stated fails: the host callback reports the span 0 at index 0, and the span lookup
  returns 0, not 1.
\<close>

theorem span_zero_counterexample:
  "overrideItemLayout zeroSpanProps = Some writeSpanZero
   \<and> span (writeSpanZero \<lparr> span = None, size' = None \<rparr> (Some 7) 0 1 None) = Some 0
   \<and> fst (provider_getSpan (getSpan_cb 1) 0 (GridLayoutProviderWithProps_new 1 zeroSpanProps None))
       = Inr 0
   \<and> fst (provider_getSpan (getSpan_cb 1) 0 (GridLayoutProviderWithProps_new 1 zeroSpanProps None))
       \<noteq> Inr 1"
  by (simp add: provider_getSpan_def getCleanLayoutObj_def getSpan_cb_def
      call_overrideItemLayout_def nullish_num_def GridLayoutProviderWithProps_new_def Let_def
      zeroSpanProps_def defaultProps_def writeSpanZero_def item_at_def)

text \<open>
  C9: each of the three lookups gives the same result and leaves the same provider
  whatever the scratch record held before (so nothing written earlier leaks), and hands
  its callback the scratch record with span and size undefined; the size lookup returns
  the size its callback yields and, when that is undefined, the current value of the
  average window; with the callbacks of the list component that is the size the host's
  \<^verbatim>\<open>overrideItemLayout\<close> wrote, and the current value of the average window when it wrote
  none.
\<close>

theorem scratch_reset_and_size_lookup:
  "provider_getLayoutType cbT i (p\<lparr> layoutObject := stale \<rparr>) = provider_getLayoutType cbT i p
   \<and> provider_getSpan cbS i (p\<lparr> layoutObject := stale \<rparr>) = provider_getSpan cbS i p
   \<and> provider_getHeightOrWidth avg cbH i (p\<lparr> layoutObject := stale \<rparr>)
       = provider_getHeightOrWidth avg cbH i p
   \<and> fst (provider_getLayoutType cbT i p) = fst (cbT i (props p) \<lparr> span = None, size' = None \<rparr>)
   \<and> fst (provider_getSpan cbS i p) = fst (cbS i (props p) \<lparr> span = None, size' = None \<rparr>)
   \<and> fst (provider_getHeightOrWidth avg cbH i p) =
       (case fst (cbH i (props p) \<lparr> span = None, size' = None \<rparr>) of
          Inl e \<Rightarrow> Inl e
        | Inr None \<Rightarrow> Inr (currentValue avg (averageWindow p))
        | Inr (Some s) \<Rightarrow> Inr s)
   \<and> (data (props p) = Some items \<longrightarrow>
        fst (provider_getHeightOrWidth avg (getHeightOrWidth_cb n) i p) =
          Inr (case overrideItemLayout (props p) of
                 None \<Rightarrow> currentValue avg (averageWindow p)
               | Some f \<Rightarrow>
                   (case size' (f \<lparr> span = None, size' = None \<rparr> (item_at items i) i n
                                  (extraData (props p))) of
                      None \<Rightarrow> currentValue avg (averageWindow p)
                    | Some s \<Rightarrow> s)))"
  by (simp add: provider_getLayoutType_def provider_getSpan_def provider_getHeightOrWidth_def
      getCleanLayoutObj_def getHeightOrWidth_cb_def call_overrideItemLayout_def nullish_num_def
      averageItemSize_def Let_def split: prod.splits sum.splits option.splits)

text \<open>
  After a span lookup at index 0, the size lookup at index 1 returns the 40 that the host
  writes; with a stale size of 77 in the scratch record and no host callback it returns
  the seed 100 of the average window.
\<close>

theorem scratch_reset_and_size_lookup_witness:
  "data (props (snd (provider_getSpan (getSpan_cb 1) 0
           (GridLayoutProviderWithProps_new 1 sizeFortyProps None)))) = Some [7, 8]
   \<and> fst (provider_getHeightOrWidth meanOfSamples (getHeightOrWidth_cb 1) 1
        (snd (provider_getSpan (getSpan_cb 1) 0
           (GridLayoutProviderWithProps_new 1 sizeFortyProps None)))) = Inr 40
   \<and> fst (provider_getHeightOrWidth meanOfSamples (getHeightOrWidth_cb 1) 1
        ((GridLayoutProviderWithProps_new 1 defaultProps None)
           \<lparr> layoutObject := \<lparr> span = Some 3, size' = Some 77 \<rparr> \<rparr>)) = Inr 100"
proof -
  let ?p = "snd (provider_getSpan (getSpan_cb 1) 0
              (GridLayoutProviderWithProps_new 1 sizeFortyProps None))"
  let ?q = "GridLayoutProviderWithProps_new 1 defaultProps None"
  have d: "data (props ?p) = Some [7, 8]"
    by (simp add: GridLayoutProviderWithProps_new_def Let_def sizeFortyProps_def
        defaultProps_def provider_getSpan_def getCleanLayoutObj_def getSpan_cb_def
        call_overrideItemLayout_def)
  have o: "overrideItemLayout (props ?p) = Some writeSizeForty"
    by (simp add: GridLayoutProviderWithProps_new_def Let_def sizeFortyProps_def
        defaultProps_def provider_getSpan_def getCleanLayoutObj_def getSpan_cb_def
        call_overrideItemLayout_def)
  have e: "data (props ?q) = Some []" "overrideItemLayout (props ?q) = None"
    "currentValue meanOfSamples (averageWindow ?q) = 100"
    by (simp_all add: GridLayoutProviderWithProps_new_def Let_def defaultProps_def
        currentValue_def AverageWindow_new_def nullish_num_def defaultEstimatedItemSize_def)
  note t = scratch_reset_and_size_lookup
    [where p = ?p and avg = meanOfSamples and n = 1 and i = 1 and items = "[7, 8]"
       and cbT = getLayoutType_cb and cbS = "getSpan_cb 1" and cbH = "getHeightOrWidth_cb 1"
       and stale = "\<lparr> span = None, size' = None \<rparr>"]
  note u = scratch_reset_and_size_lookup
    [where p = ?q and avg = meanOfSamples and n = 1 and i = 1 and items = "[]"
       and cbT = getLayoutType_cb and cbS = "getSpan_cb 1" and cbH = "getHeightOrWidth_cb 1"
       and stale = "\<lparr> span = Some 3, size' = Some 77 \<rparr>"]
  note t7 = t [THEN conjunct2, THEN conjunct2, THEN conjunct2, THEN conjunct2,
      THEN conjunct2, THEN conjunct2, rule_format, OF d]
  note u3 = u [THEN conjunct2, THEN conjunct2, THEN conjunct1]
  note u7 = u [THEN conjunct2, THEN conjunct2, THEN conjunct2, THEN conjunct2,
      THEN conjunct2, THEN conjunct2, rule_format, OF e(1)]
  have "fst (provider_getHeightOrWidth meanOfSamples (getHeightOrWidth_cb 1) 1 ?p) = Inr 40"
    unfolding t7 o by (simp add: writeSizeForty_def)
  moreover have "fst (provider_getHeightOrWidth meanOfSamples (getHeightOrWidth_cb 1) 1
        (?q\<lparr> layoutObject := \<lparr> span = Some 3, size' = Some 77 \<rparr> \<rparr>)) = Inr 100"
    unfolding u3 u7 e by simp
  ultimately show ?thesis using d by simp
qed


section \<open>Properties of the provider\<close>

text \<open>
  C4: when the layouts of the layout manager have an entry at the index,
  \<^verbatim>\<open>reportItemLayout\<close> sets the \<^verbatim>\<open>isOverridden\<close> flag of that entry and adds its width (when
  the list is horizontal) or its height (otherwise) to the average window, changing
  nothing else; when the index is past the end, or there is no layout manager, layouts
  and provider are left as they were. The call has no throwing branch.
\<close>

theorem reportItemLayout_effect:
  "(index < length layouts \<longrightarrow>
      reportItemLayout (Some layouts) index p =
        (Some (layouts[index := (layouts ! index)\<lparr> isOverridden := Some True \<rparr>]),
         p\<lparr> averageWindow :=
              addValue (averageWindow p)
                (if horizontal (props p) = Some True
                 then width (layouts ! index) else height (layouts ! index)) \<rparr>))
   \<and> (length layouts \<le> index \<longrightarrow> reportItemLayout (Some layouts) index p = (Some layouts, p))
   \<and> reportItemLayout None index p = (None, p)"
  by (simp add: reportItemLayout_def item_at_def truthy_flag_def)

text \<open>
  One layout of height 50 in a vertical list: reporting index 0 marks it and feeds 50 to
  the window; reporting index 3 changes nothing.
\<close>

theorem reportItemLayout_effect_witness:
  "(0::nat) < length [layoutA]
   \<and> map isOverridden (the (fst (reportItemLayout (Some [layoutA]) 0
        (GridLayoutProviderWithProps_new 1 defaultProps None)))) = [Some True]
   \<and> samples (averageWindow (snd (reportItemLayout (Some [layoutA]) 0
        (GridLayoutProviderWithProps_new 1 defaultProps None)))) = [50]
   \<and> length [layoutA] \<le> (3::nat)
   \<and> reportItemLayout (Some [layoutA]) 3 (GridLayoutProviderWithProps_new 1 defaultProps None)
       = (Some [layoutA], GridLayoutProviderWithProps_new 1 defaultProps None)"
  using reportItemLayout_effect [of 0 "[layoutA]" "GridLayoutProviderWithProps_new 1 defaultProps None"]
    reportItemLayout_effect [of 3 "[layoutA]" "GridLayoutProviderWithProps_new 1 defaultProps None"]
  by (simp add: GridLayoutProviderWithProps_new_def Let_def defaultProps_def layoutA_def
      addValue_def AverageWindow_new_def)


lemma newLayoutManager_frame:
  "newLayoutManager avg outside sn ov renderWindowSize isHorizontal cachedLayouts p
     = Inr (m, cached, p') \<Longrightarrow> \<exists>w. p' = p\<lparr> averageWindow := w \<rparr>"
  by (auto simp add: newLayoutManager_def Let_def split: sum.splits)

lemma hasExpired_step:
  "hasExpired p \<Longrightarrow> hasExpired (provider_step avg outside sn ov c p)"
proof (cases c)
  case (NewLayoutManager renderWindowSize isHorizontal cachedLayouts)
  assume "hasExpired p"
  then show ?thesis
    using NewLayoutManager
    by (auto split: sum.splits dest!: newLayoutManager_frame)
qed (simp_all add: updateProps_def markExpired_def reportItemLayout_def Let_def
      split: option.splits)

text \<open>
  C3: a provider that has expired stays expired through every finite sequence of
  \<^verbatim>\<open>updateProps\<close>, \<^verbatim>\<open>markExpired\<close>, \<^verbatim>\<open>reportItemLayout\<close> and \<^verbatim>\<open>newLayoutManager\<close> calls,
  whether a \<^verbatim>\<open>newLayoutManager\<close> call returns or throws; in particular an \<^verbatim>\<open>updateProps\<close>
  call leaves it expired.
\<close>

theorem hasExpired_monotone:
  assumes "hasExpired p"
  shows "hasExpired (provider_steps avg outside sn ov cs p)
    \<and> hasExpired (updateProps p newProps)"
proof
  show "hasExpired (provider_steps avg outside sn ov cs p)"
    using assms
  proof (induction cs arbitrary: p)
    case Nil
    then show ?case by simp
  next
    case (Cons c cs)
    then show ?case by (simp add: hasExpired_step)
  qed
  show "hasExpired (updateProps p newProps)"
    using assms by (simp add: updateProps_def Let_def)
qed

text \<open>
  A provider marked expired, then given the same props again, a new layout manager, a
  reported layout and the same props once more: still expired.
\<close>

theorem hasExpired_monotone_witness:
  "hasExpired (markExpired (GridLayoutProviderWithProps_new 1 defaultProps None))
   \<and> hasExpired (provider_steps meanOfSamples throwOutside managerOfCached noOverrides
        [UpdateProps defaultProps, NewLayoutManager viewport None (Some [layoutA]),
         ReportItemLayout (Some [layoutA]) 0, UpdateProps defaultProps]
        (markExpired (GridLayoutProviderWithProps_new 1 defaultProps None)))
   \<and> hasExpired (updateProps (markExpired (GridLayoutProviderWithProps_new 1 defaultProps None))
        defaultProps)"
proof -
  have h: "hasExpired (markExpired (GridLayoutProviderWithProps_new 1 defaultProps None))"
    by (simp add: markExpired_def)
  from hasExpired_monotone [OF h, where avg = meanOfSamples and outside = throwOutside
      and sn = managerOfCached
      and ov = noOverrides and newProps = defaultProps
      and cs = "[UpdateProps defaultProps, NewLayoutManager viewport None (Some [layoutA]),
         ReportItemLayout (Some [layoutA]) 0, UpdateProps defaultProps]"] h
  show ?thesis by blast
qed

text \<open>
  C6: \<^verbatim>\<open>updateProps\<close> returns the provider with three fields assigned: the props are the
  new props, the stored insets are what the inset function makes of a zero dimension
  under the new style and orientation (minus top and bottom padding in the height of a
  horizontal list, minus left and right padding in the width otherwise), and the provider
  has expired exactly when it had before, or the number of columns differs from the one
  stored, or the new insets differ from the stored ones in height or in width.
\<close>

theorem updateProps_expiry:
  "updateProps p newProps =
     p\<lparr> hasExpired := hasExpired (updateProps p newProps),
        renderWindowInsets := renderWindowInsets (updateProps p newProps),
        props := newProps \<rparr>
   \<and> renderWindowInsets (updateProps p newProps) =
       (if horizontal newProps = Some True
        then \<lparr> height = 0 - (paddingTop (updateContentStyle emptyStyle (contentContainerStyle newProps))
                            + paddingBottom (updateContentStyle emptyStyle (contentContainerStyle newProps))),
               width = 0 \<rparr>
        else \<lparr> height = 0,
               width = 0 - (paddingLeft (updateContentStyle emptyStyle (contentContainerStyle newProps))
                            + paddingRight (updateContentStyle emptyStyle (contentContainerStyle newProps))) \<rparr>)
   \<and> (hasExpired (updateProps p newProps) \<longleftrightarrow>
        hasExpired p
        \<or> numColumns newProps \<noteq> numColumns (props p)
        \<or> height (renderWindowInsets (updateProps p newProps)) \<noteq> height (renderWindowInsets p)
        \<or> width (renderWindowInsets (updateProps p newProps)) \<noteq> width (renderWindowInsets p))"
  by (auto simp add: updateProps_def Let_def applyInsetToFresh_def
      applyContentContainerInsetForLayoutManager_def truthy_flag_def)

text \<open>
  A fresh provider does not expire on its own props; it expires when the number of
  columns goes from 1 to 2, and when a uniform padding of 10 appears (insets of width -20).
\<close>

theorem updateProps_expiry_witness:
  "\<not> hasExpired (updateProps (GridLayoutProviderWithProps_new 1 defaultProps None) defaultProps)
   \<and> hasExpired (updateProps (GridLayoutProviderWithProps_new 1 defaultProps None) twoColumnsProps)
   \<and> hasExpired (updateProps (GridLayoutProviderWithProps_new 1 defaultProps None) paddedProps)
   \<and> renderWindowInsets (updateProps (GridLayoutProviderWithProps_new 1 defaultProps None) paddedProps)
       = \<lparr> height = 0, width = -20 \<rparr>"
  using updateProps_expiry [of "GridLayoutProviderWithProps_new 1 defaultProps None" defaultProps]
    updateProps_expiry [of "GridLayoutProviderWithProps_new 1 defaultProps None" twoColumnsProps]
    updateProps_expiry [of "GridLayoutProviderWithProps_new 1 defaultProps None" paddedProps]
  by (simp add: GridLayoutProviderWithProps_new_def Let_def defaultProps_def twoColumnsProps_def
      paddedProps_def getAdjustedRenderWindowSize_def applyInsetToFresh_def
      applyContentContainerInsetForLayoutManager_def truthy_flag_def updateContentStyle_def
      Number_def js_or_num_def js_or_def truthy_num_def emptyStyle_def uniformStyle_def)

lemma as_window_size_numeral: "as_window_size (Finite (numeral n)) = Some n"
  by simp

text \<open>The window size 1 that the constructor of the provider asks for is within the contract.\<close>

lemma construct_AverageWindow_one:
  "construct_AverageWindow outside (Finite 1) startValue = Inr (AverageWindow_new num.One startValue)"
  by (simp add: construct_AverageWindow_def)

lemma estimatedItemCount_finite:
  "(case estimatedItemSize (props p) of None \<Rightarrow> 100 | Some e \<Rightarrow> e) \<noteq> 0 \<Longrightarrow>
   estimatedItemCount p renderWindowSize =
     Finite (max 3 (real_of_int (round
       ((if horizontal (props p) = Some True
         then width renderWindowSize else height renderWindowSize)
        / (case estimatedItemSize (props p) of None \<Rightarrow> 100 | Some e \<Rightarrow> e)))))"
  by (simp add: estimatedItemCount_def truthy_flag_def nullish_num_def
      defaultEstimatedItemSize_def js_div_def round_def split: option.splits)

lemma newLayoutManager_in_contract:
  assumes "(case estimatedItemSize (props p) of None \<Rightarrow> 100 | Some e \<Rightarrow> e) \<noteq> 0"
    and "2 * (case numColumns (props p) of None \<Rightarrow> 1 | Some c \<Rightarrow> if c = 0 then 1 else c)
         * max 3 (real_of_int (round
             ((if horizontal (props p) = Some True
               then width renderWindowSize else height renderWindowSize)
              / (case estimatedItemSize (props p) of None \<Rightarrow> 100 | Some e \<Rightarrow> e))))
         = numeral n"
  shows "\<exists>m cached.
    newLayoutManager avg outside sn ov renderWindowSize isHorizontal cachedLayouts p
      = Inr (m, cached,
             p\<lparr> averageWindow := AverageWindow_new n (currentValue avg (averageWindow p)) \<rparr>)"
proof -
  have "js_or_num (numColumns (props p)) 1
      = (case numColumns (props p) of None \<Rightarrow> 1 | Some c \<Rightarrow> if c = 0 then 1 else c)"
    by (simp add: js_or_num_def split: option.splits)
  then have "js_times (2 * js_or_num (numColumns (props p)) 1)
      (estimatedItemCount p renderWindowSize) = Finite (numeral n)"
    using assms by (simp add: estimatedItemCount_finite)
  then show ?thesis
    by (simp add: newLayoutManager_def construct_AverageWindow_def Let_def
        as_window_size_numeral del: as_window_size.simps)
qed




text \<open>
  C10: without \<^verbatim>\<open>estimatedItemSize\<close> the constructor seeds the average window with 100, so
  that the average item size of the new provider is 100, and \<^verbatim>\<open>newLayoutManager\<close> divides
  the viewport's width (horizontal list) or height (otherwise) by 100 for the estimated
  item count; when twice the number of columns times that count is a positive integer
  \<open>n\<close>, the call returns with a new average window of size \<open>n\<close>.
\<close>

theorem default_estimated_item_size:
  assumes "estimatedItemSize ps = None" and "estimatedItemSize (props p) = None"
  shows "averageWindow (GridLayoutProviderWithProps_new ms ps delta)
        = \<lparr> windowSize = num.One, seedValue = 100, samples = [] \<rparr>
    \<and> averageItemSize avg (GridLayoutProviderWithProps_new ms ps delta) = 100
    \<and> estimatedItemCount p renderWindowSize
        = Finite (max 3 (real_of_int (round
            ((if horizontal (props p) = Some True
              then width renderWindowSize else height renderWindowSize) / 100))))
    \<and> (2 * (case numColumns (props p) of None \<Rightarrow> 1 | Some c \<Rightarrow> if c = 0 then 1 else c)
          * max 3 (real_of_int (round
              ((if horizontal (props p) = Some True
                then width renderWindowSize else height renderWindowSize) / 100)))
          = numeral n \<longrightarrow>
        (\<exists>m cached.
           newLayoutManager avg outside sn ov renderWindowSize isHorizontal cachedLayouts p
             = Inr (m, cached,
                    p\<lparr> averageWindow :=
                         \<lparr> windowSize = n, seedValue = currentValue avg (averageWindow p),
                           samples = [] \<rparr> \<rparr>)))"
proof (intro conjI impI)
  show "averageWindow (GridLayoutProviderWithProps_new ms ps delta)
        = \<lparr> windowSize = num.One, seedValue = 100, samples = [] \<rparr>"
    using assms(1)
    by (simp add: GridLayoutProviderWithProps_new_def Let_def AverageWindow_new_def
        nullish_num_def defaultEstimatedItemSize_def)
  show "averageItemSize avg (GridLayoutProviderWithProps_new ms ps delta) = 100"
    using assms(1)
    by (simp add: GridLayoutProviderWithProps_new_def Let_def AverageWindow_new_def
        nullish_num_def defaultEstimatedItemSize_def averageItemSize_def currentValue_def)
  show "estimatedItemCount p renderWindowSize
        = Finite (max 3 (real_of_int (round
            ((if horizontal (props p) = Some True
              then width renderWindowSize else height renderWindowSize) / 100))))"
    using estimatedItemCount_finite [of p renderWindowSize] assms(2) by simp
next
  assume "2 * (case numColumns (props p) of None \<Rightarrow> 1 | Some c \<Rightarrow> if c = 0 then 1 else c)
          * max 3 (real_of_int (round
              ((if horizontal (props p) = Some True
                then width renderWindowSize else height renderWindowSize) / 100)))
          = numeral n"
  then show "\<exists>m cached.
           newLayoutManager avg outside sn ov renderWindowSize isHorizontal cachedLayouts p
             = Inr (m, cached,
                    p\<lparr> averageWindow :=
                         \<lparr> windowSize = n, seedValue = currentValue avg (averageWindow p),
                           samples = [] \<rparr> \<rparr>)"
    using newLayoutManager_in_contract [of p renderWindowSize n avg outside sn ov
        isHorizontal cachedLayouts] assms(2)
    by (simp add: AverageWindow_new_def)
qed

text \<open>
  The default props: an average item size of 100, an estimated item count of 6 for a
  viewport 600 high, and a window of 2 * 1 * 6 = 12.
\<close>

theorem default_estimated_item_size_witness:
  "estimatedItemSize defaultProps = None
   \<and> estimatedItemSize (props (GridLayoutProviderWithProps_new 1 defaultProps None)) = None
   \<and> averageItemSize meanOfSamples (GridLayoutProviderWithProps_new 1 defaultProps None) = 100
   \<and> estimatedItemCount (GridLayoutProviderWithProps_new 1 defaultProps None) viewport = Finite 6
   \<and> (\<exists>m cached.
         newLayoutManager meanOfSamples throwOutside managerOfCached noOverrides viewport None None
           (GridLayoutProviderWithProps_new 1 defaultProps None)
         = Inr (m, cached,
                (GridLayoutProviderWithProps_new 1 defaultProps None)
                  \<lparr> averageWindow :=
                      \<lparr> windowSize = num_of_nat 12, seedValue = 100, samples = [] \<rparr> \<rparr>))"
proof -
  let ?p = "GridLayoutProviderWithProps_new 1 defaultProps None"
  have a: "estimatedItemSize defaultProps = None"
    by (simp add: defaultProps_def)
  have b: "estimatedItemSize (props ?p) = None"
    by (simp add: GridLayoutProviderWithProps_new_def Let_def defaultProps_def)
  have c: "horizontal (props ?p) = None" "numColumns (props ?p) = Some 1"
    "currentValue meanOfSamples (averageWindow ?p) = 100"
    by (simp_all add: GridLayoutProviderWithProps_new_def Let_def defaultProps_def
        currentValue_def AverageWindow_new_def nullish_num_def defaultEstimatedItemSize_def)
  note t = default_estimated_item_size [OF a b, where ms = 1 and delta = None
      and avg = meanOfSamples and outside = throwOutside and sn = managerOfCached
      and ov = noOverrides and renderWindowSize = viewport and isHorizontal = None
      and cachedLayouts = None and n = "num_of_nat 12"]
  have 1: "averageItemSize meanOfSamples ?p = 100"
    using t [THEN conjunct2, THEN conjunct1] .
  have 2: "estimatedItemCount ?p viewport = Finite 6"
    using t [THEN conjunct2, THEN conjunct2, THEN conjunct1]
    by (simp add: c viewport_def round_def)
  have 3: "\<exists>m cached.
         newLayoutManager meanOfSamples throwOutside managerOfCached noOverrides viewport None None ?p
         = Inr (m, cached,
                ?p\<lparr> averageWindow :=
                     \<lparr> windowSize = num_of_nat 12, seedValue = 100, samples = [] \<rparr> \<rparr>)"
    using t [THEN conjunct2, THEN conjunct2, THEN conjunct2]
    by (simp add: c viewport_def round_def)
  from a b 1 2 3 show ?thesis by blast
qed


section \<open>Properties of the list component\<close>

text \<open>
  C7: the constructor fails exactly with the error that \<^verbatim>\<open>validateProps\<close> throws; it fails
  if and only if one of the three invalid configurations is present, with the error of
  the first one present; otherwise it yields a component, which has no layout provider
  yet.
\<close>

theorem invalid_configuration_errors:
  "(FlashList_new dev ps = Inl e \<longleftrightarrow> validateProps dev ps = Inl e)
   \<and> ((\<exists>e'. FlashList_new dev ps = Inl e') \<longleftrightarrow>
        refreshWithoutBoolean ps \<or> stickyWhileHorizontal ps \<or> columnsWhileHorizontal ps)
   \<and> (refreshWithoutBoolean ps \<longrightarrow> FlashList_new dev ps = Inl refreshBooleanMissing)
   \<and> (\<not> refreshWithoutBoolean ps \<and> stickyWhileHorizontal ps \<longrightarrow>
        FlashList_new dev ps = Inl stickyWhileHorizontalNotSupported)
   \<and> (\<not> refreshWithoutBoolean ps \<and> \<not> stickyWhileHorizontal ps \<and> columnsWhileHorizontal ps \<longrightarrow>
        FlashList_new dev ps = Inl columnsWhileHorizontalNotSupported)
   \<and> (\<not> refreshWithoutBoolean ps \<and> \<not> stickyWhileHorizontal ps \<and> \<not> columnsWhileHorizontal ps \<longrightarrow>
        (\<exists>fl. FlashList_new dev ps = Inr fl \<and> state_layoutProvider fl = None))"
  by (auto simp add: FlashList_new_def validateProps_def truthy_flag_def
      refreshWithoutBoolean_def stickyWhileHorizontal_def columnsWhileHorizontal_def
      split: option.splits sum.splits if_splits)

text \<open>
  A refresh handler alone, sticky headers on a horizontal list and two columns on a
  horizontal list each fail with their error; the default props pass.
\<close>

theorem invalid_configuration_errors_witness:
  "refreshWithoutBoolean refreshProps
   \<and> FlashList_new True refreshProps = Inl refreshBooleanMissing
   \<and> \<not> refreshWithoutBoolean stickyHorizontalProps \<and> stickyWhileHorizontal stickyHorizontalProps
   \<and> FlashList_new True stickyHorizontalProps = Inl stickyWhileHorizontalNotSupported
   \<and> \<not> refreshWithoutBoolean horizontalGridProps \<and> \<not> stickyWhileHorizontal horizontalGridProps
   \<and> columnsWhileHorizontal horizontalGridProps
   \<and> FlashList_new True horizontalGridProps = Inl columnsWhileHorizontalNotSupported
   \<and> \<not> refreshWithoutBoolean defaultProps \<and> \<not> stickyWhileHorizontal defaultProps
   \<and> \<not> columnsWhileHorizontal defaultProps
   \<and> (\<exists>fl. FlashList_new True defaultProps = Inr fl)"
proof -
  have r: "refreshWithoutBoolean refreshProps"
    by (simp add: refreshWithoutBoolean_def refreshProps_def defaultProps_def)
  have s: "\<not> refreshWithoutBoolean stickyHorizontalProps"
    "stickyWhileHorizontal stickyHorizontalProps"
    by (simp_all add: refreshWithoutBoolean_def stickyWhileHorizontal_def
        stickyHorizontalProps_def defaultProps_def)
  have c: "\<not> refreshWithoutBoolean horizontalGridProps"
    "\<not> stickyWhileHorizontal horizontalGridProps" "columnsWhileHorizontal horizontalGridProps"
    by (simp_all add: refreshWithoutBoolean_def stickyWhileHorizontal_def
        columnsWhileHorizontal_def horizontalGridProps_def defaultProps_def)
  have d: "\<not> refreshWithoutBoolean defaultProps" "\<not> stickyWhileHorizontal defaultProps"
    "\<not> columnsWhileHorizontal defaultProps"
    by (simp_all add: refreshWithoutBoolean_def stickyWhileHorizontal_def
        columnsWhileHorizontal_def defaultProps_def)
  have 1: "FlashList_new True refreshProps = Inl refreshBooleanMissing"
    using invalid_configuration_errors [where dev = True and ps = refreshProps
        and e = refreshBooleanMissing, THEN conjunct2, THEN conjunct2, THEN conjunct1] r
    by simp
  have 2: "FlashList_new True stickyHorizontalProps = Inl stickyWhileHorizontalNotSupported"
    using invalid_configuration_errors [where dev = True and ps = stickyHorizontalProps
        and e = refreshBooleanMissing, THEN conjunct2, THEN conjunct2, THEN conjunct2,
        THEN conjunct1] s
    by simp
  have 3: "FlashList_new True horizontalGridProps = Inl columnsWhileHorizontalNotSupported"
    using invalid_configuration_errors [where dev = True and ps = horizontalGridProps
        and e = refreshBooleanMissing, THEN conjunct2, THEN conjunct2, THEN conjunct2,
        THEN conjunct2, THEN conjunct1] c
    by simp
  have 4: "\<exists>fl. FlashList_new True defaultProps = Inr fl"
    using invalid_configuration_errors [where dev = True and ps = defaultProps
        and e = refreshBooleanMissing, THEN conjunct2, THEN conjunct2, THEN conjunct2,
        THEN conjunct2, THEN conjunct2] d
    by blast
  from 1 2 3 4 r s c d show ?thesis by simp
qed

end
